theory Spec2Isabelle
  imports Main "HOL-Library.Sublist"
begin

section \<open>The pre-commit lint hook \<^verbatim>\<open>xlint.js\<close>\<close>

text \<open>
  The script shells out to git for the staged file names, splits and filters the
  listing, hands the remaining paths to ESLint and maps what happened to the value its
  promise settles with. The embedding follows \<^verbatim>\<open>src/xlint.js\<close> function by function.
  What the script obtains from outside (the callback arguments of \<^verbatim>\<open>exec\<close>, the
  value of \<^verbatim>\<open>process.platform\<close>, the behaviour of ESLint) is a parameter; what it
  does to the outside (running a command, \<^verbatim>\<open>console.log\<close>, invoking ESLint) is
  recorded in a list of events, oldest first. A promise that rejects, and a
  \<^verbatim>\<open>throw\<close>, is the \<open>Inl\<close> side of a sum; a promise that resolves, and a
  \<^verbatim>\<open>return\<close>, is the \<open>Inr\<close> side.

  A \<open>string\<close> stands for a JavaScript string, one \<open>char\<close> for one code unit.
\<close>

subsection \<open>Constants of the script\<close>

definition GENERAL_ERROR :: int where
  "GENERAL_ERROR = 1"

definition COMMAND_CANNOT_EXECUTE :: int where
  "COMMAND_CANNOT_EXECUTE = 126"

definition ignored_files :: "string list" where
  "ignored_files = [''scripts/pre-commit.js'']"

definition git_cmd :: string where
  "git_cmd = ''git --no-pager diff --cached --name-only''"

definition CR :: char where
  "CR = CHR 0x0D"

definition LF :: char where
  "LF = CHR 0x0A"

subsection \<open>Values\<close>

text \<open>
  A field of a JavaScript object: missing (reads as \<^verbatim>\<open>undefined\<close>), \<^verbatim>\<open>null\<close>, or a
  value.
\<close>

datatype 'a field = Absent | Null | Present 'a

text \<open>
  What the \<^verbatim>\<open>error\<close> field of an object built by \<^verbatim>\<open>os_run\<close> holds: the
  \<^verbatim>\<open>Error\<close> object \<^verbatim>\<open>exec\<close> passed (kept as its message), or a string.
\<close>

datatype err_val = ErrorObj string | ErrStr string

text \<open>
  The objects \<^verbatim>\<open>os_run\<close> settles with: \<^verbatim>\<open>{error, stderr}\<close> on rejection,
  \<^verbatim>\<open>{success, stdout}\<close> on resolution. The fields an object literal does not
  mention are \<open>Absent\<close>.
\<close>

record os_object =
  error :: "err_val field"
  stderr :: "string field"
  success :: "bool field"
  stdout :: "string field"

text \<open>
  The arguments \<^verbatim>\<open>exec\<close> calls its callback with: \<^verbatim>\<open>error\<close> is \<^verbatim>\<open>null\<close>
  (\<open>None\<close>) or an \<^verbatim>\<open>Error\<close> (its message), the two streams are strings.
\<close>

record exec_callback =
  cb_error :: "string option"
  cb_stdout :: string
  cb_stderr :: string

text \<open>
  ESLint is not part of the script; what its calls give is a parameter. One entry of
  the array \<^verbatim>\<open>lintFiles\<close> resolves with, a \<^verbatim>\<open>LintResult\<close>, holds the path of a file
  and the counts of the findings in that file.
\<close>

record lint_result =
  file_path :: string
  file_errorCount :: int
  file_warningCount :: int
  file_fixableErrorCount :: int
  file_fixableWarningCount :: int

text \<open>
  The value the script names \<^verbatim>\<open>results\<close>. \<^verbatim>\<open>ESLint.lintFiles\<close> resolves with an
  array of \<^verbatim>\<open>LintResult\<close>s, one per file: \<open>ResultArray\<close>. The script reads four
  properties from \<^verbatim>\<open>results\<close> itself; \<open>ResultObject e w fe fw\<close> is an object
  that has them, \<^verbatim>\<open>errorCount\<close> \<open>e\<close>, \<^verbatim>\<open>warningCount\<close> \<open>w\<close>,
  \<^verbatim>\<open>fixableErrorCount\<close> \<open>fe\<close> and \<^verbatim>\<open>fixableWarningCount\<close> \<open>fw\<close>. An array
  has none of the four properties: reading them gives \<^verbatim>\<open>undefined\<close>.
\<close>

datatype results_value =
    ResultArray "lint_result list"
  | ResultObject "int field" "int field" "int field" "int field"

fun errorCount :: "results_value \<Rightarrow> int field" where
  "errorCount (ResultArray rs) = Absent"
| "errorCount (ResultObject e w fe fw) = e"

fun warningCount :: "results_value \<Rightarrow> int field" where
  "warningCount (ResultArray rs) = Absent"
| "warningCount (ResultObject e w fe fw) = w"

fun fixableErrorCount :: "results_value \<Rightarrow> int field" where
  "fixableErrorCount (ResultArray rs) = Absent"
| "fixableErrorCount (ResultObject e w fe fw) = fe"

fun fixableWarningCount :: "results_value \<Rightarrow> int field" where
  "fixableWarningCount (ResultArray rs) = Absent"
| "fixableWarningCount (ResultObject e w fe fw) = fw"

text \<open>
  The comparisons with 0: \<^verbatim>\<open>===\<close> holds of the number 0 only, and so does
  \<^verbatim>\<open>==\<close> among \<^verbatim>\<open>undefined\<close>, \<^verbatim>\<open>null\<close> and the numbers.
\<close>

definition strict_eq_0 :: "int field \<Rightarrow> bool" where
  "strict_eq_0 f = (f = Present 0)"

definition loose_eq_0 :: "int field \<Rightarrow> bool" where
  "loose_eq_0 f = (case f of Present n \<Rightarrow> n = 0 | _ \<Rightarrow> False)"

text \<open>
  The objects of ESLint the script calls: the formatter \<^verbatim>\<open>loadFormatter\<close> resolves
  with and the instance \<^verbatim>\<open>new ESLint()\<close> returns. Each call throws (or rejects, under
  \<^verbatim>\<open>await\<close>) with an error, \<open>Inl\<close> of its message, or gives a value, \<open>Inr\<close>.
\<close>

record formatter =
  format :: "results_value \<Rightarrow> string + string"

record eslint_instance =
  lintFiles :: "string list \<Rightarrow> string + results_value"
  loadFormatter :: "string \<Rightarrow> string + formatter"

text \<open>What the script, and so the promise of the entry point, can throw.\<close>

datatype thrown = ThrownInt int | ThrownObject os_object | ThrownByEngine string

datatype event =
    Exec string
  | Log string
  | LogWith string thrown
  | Lint "string list"

record env =
  exec :: "string \<Rightarrow> exec_callback"
  platform :: string
  new_ESLint :: "string + eslint_instance"

type_synonym 'a settled = "event list \<times> (thrown + 'a)"

subsection \<open>Truthiness\<close>

definition truthy_str :: "string field \<Rightarrow> bool" where
  "truthy_str f = (case f of Present s \<Rightarrow> s \<noteq> [] | _ \<Rightarrow> False)"

definition truthy_bool :: "bool field \<Rightarrow> bool" where
  "truthy_bool f = (case f of Present b \<Rightarrow> b | _ \<Rightarrow> False)"

definition truthy_err :: "err_val field \<Rightarrow> bool" where
  "truthy_err f =
     (case f of Present (ErrorObj m) \<Rightarrow> True | Present (ErrStr s) \<Rightarrow> s \<noteq> [] | _ \<Rightarrow> False)"

subsection \<open>\<^verbatim>\<open>os_run\<close>\<close>

text \<open>
  The callback of \<^verbatim>\<open>exec\<close>, branch by branch. The result is the log lines written
  and the object the promise rejects (\<open>Inl\<close>) or resolves (\<open>Inr\<close>) with.
\<close>

definition os_run_callback :: "string \<Rightarrow> exec_callback \<Rightarrow> event list \<times> (os_object + os_object)" where
  "os_run_callback cmd cb =
     (case cb_error cb of
        Some message \<Rightarrow>
          (let first_line = ''failed to execute cmd: '' @ cmd @ '', error: '' @ message in
           if cb_stderr cb \<noteq> [] then
             ([Log first_line, Log (first_line @ '' with stderr: '' @ cb_stderr cb)],
              Inl \<lparr>error = Present (ErrorObj message), stderr = Present (cb_stderr cb),
                   success = Absent, stdout = Absent\<rparr>)
           else
             ([Log first_line, Log first_line],
              Inl \<lparr>error = Present (ErrorObj message), stderr = Null,
                   success = Absent, stdout = Absent\<rparr>))
      | None \<Rightarrow>
          if cb_stdout cb \<noteq> [] then
            ([], Inr \<lparr>error = Absent, stderr = Absent,
                      success = Present True, stdout = Present (cb_stdout cb)\<rparr>)
          else if cb_stderr cb \<noteq> [] then
            ([Log (''unknown error when executing cmd: '' @ cmd @ '' with stderr: '' @ cb_stderr cb)],
             Inl \<lparr>error = Present (ErrStr ''UNKNOWN_ERROR''), stderr = Present (cb_stderr cb),
                  success = Absent, stdout = Absent\<rparr>)
          else
            ([], Inr \<lparr>error = Absent, stderr = Absent,
                      success = Present True, stdout = Null\<rparr>))"

definition os_run :: "(string \<Rightarrow> exec_callback) \<Rightarrow> string \<Rightarrow> event list \<times> (os_object + os_object)" where
  "os_run ex cmd = (case os_run_callback cmd (ex cmd) of (logs, r) \<Rightarrow> (Exec cmd # logs, r))"

subsection \<open>Splitting and filtering the listing\<close>

text \<open>
  \<^verbatim>\<open>String.prototype.split\<close> with a string separator: scan from the left, cut at
  every occurrence of the separator and continue behind it; what is left at the end is
  the last segment. \<open>cur\<close> is the segment being read. An empty separator cuts
  between all code units.
\<close>

function split_from :: "string \<Rightarrow> string \<Rightarrow> string \<Rightarrow> string list" where
  "split_from sep cur [] = [cur]"
| "split_from sep cur (c # cs) =
     (if sep \<noteq> [] \<and> prefix sep (c # cs)
      then cur # split_from sep [] (drop (length sep) (c # cs))
      else split_from sep (cur @ [c]) cs)"
  by pat_completeness auto
termination
  by (relation "measure (\<lambda>(sep, cur, s). length s)") auto

definition js_split :: "string \<Rightarrow> string \<Rightarrow> string list" where
  "js_split s sep = (if sep = [] then map (\<lambda>c. [c]) s else split_from sep [] s)"

text \<open>
  The regular expression \<^verbatim>\<open>/(t|j)sx?$/g\<close>. \<open>match_here\<close> is a match that starts at
  the head of the given rest of the subject: \<^verbatim>\<open>t\<close> or \<^verbatim>\<open>j\<close>, then \<^verbatim>\<open>s\<close>, then
  an optional \<^verbatim>\<open>x\<close>, then the end of the subject (there is no \<^verbatim>\<open>m\<close> flag).
  \<^verbatim>\<open>test\<close> tries every start position from the left; the literal is evaluated anew
  at every call of the filter's callback, so each search starts at index 0.
\<close>

definition match_here :: "string \<Rightarrow> bool" where
  "match_here r =
     (case r of
        c1 # c2 # rest \<Rightarrow>
          (c1 = CHR ''t'' \<or> c1 = CHR ''j'') \<and> c2 = CHR ''s'' \<and> (rest = ''x'' \<or> rest = [])
      | _ \<Rightarrow> False)"

fun regex_test :: "string \<Rightarrow> bool" where
  "regex_test [] = match_here []"
| "regex_test (c # cs) = (match_here (c # cs) \<or> regex_test cs)"

definition new_line :: "string \<Rightarrow> string" where
  "new_line pf = (if pf = ''win32'' then [CR, LF] else [LF])"

definition keep :: "string \<Rightarrow> bool" where
  "keep cf = (length cf \<noteq> 0 \<and> regex_test cf \<and> cf \<notin> set ignored_files)"

definition changed_files :: "string \<Rightarrow> string \<Rightarrow> string list" where
  "changed_files pf out = filter keep (js_split out (new_line pf))"

subsection \<open>The lint stage\<close>

text \<open>
  The body of the \<^verbatim>\<open>try\<close> block, statement by statement: each of the four calls
  to ESLint may throw and ends the block then. \<open>Lint cfs\<close> records the call of
  \<^verbatim>\<open>lintFiles\<close>.
\<close>

definition try_lint :: "env \<Rightarrow> string list \<Rightarrow> int settled" where
  "try_lint e cfs =
     (case new_ESLint e of
        Inl err \<Rightarrow> ([], Inl (ThrownByEngine err))
      | Inr eslint \<Rightarrow>
     (case lintFiles eslint cfs of
        Inl err \<Rightarrow> ([Lint cfs], Inl (ThrownByEngine err))
      | Inr results \<Rightarrow>
     (case loadFormatter eslint ''stylish'' of
        Inl err \<Rightarrow> ([Lint cfs], Inl (ThrownByEngine err))
      | Inr fmt \<Rightarrow>
     (case format fmt results of
        Inl err \<Rightarrow> ([Lint cfs], Inl (ThrownByEngine err))
      | Inr prettyResults \<Rightarrow>
          if strict_eq_0 (errorCount results) \<and> strict_eq_0 (warningCount results) \<and>
             loose_eq_0 (fixableErrorCount results) \<and>
             strict_eq_0 (fixableWarningCount results)
          then ([Lint cfs, Log prettyResults], Inr 0)
          else ([Lint cfs, Log prettyResults, Log ''LINTING ERRORS''],
                Inl (ThrownInt GENERAL_ERROR))))))"

text \<open>The \<^verbatim>\<open>catch\<close> clause: it receives whatever the \<^verbatim>\<open>try\<close> block threw.\<close>

definition lint_files :: "env \<Rightarrow> string list \<Rightarrow> int settled" where
  "lint_files e cfs =
     (case try_lint e cfs of
        (evs, Inl eslint_error) \<Rightarrow>
          (evs @ [LogWith ''Failed to run ESLint, error: '' eslint_error],
           Inl (ThrownInt COMMAND_CANNOT_EXECUTE))
      | (evs, Inr v) \<Rightarrow> (evs, Inr v))"

subsection \<open>The entry point\<close>

text \<open>The conditions of the three \<^verbatim>\<open>if\<close> statements on \<^verbatim>\<open>response\<close>.\<close>

definition has_error :: "os_object \<Rightarrow> bool" where
  "has_error response = truthy_err (error response)"

definition nothing_staged :: "os_object \<Rightarrow> bool" where
  "nothing_staged response = (truthy_bool (success response) \<and> stdout response = Null)"

definition has_stdout :: "os_object \<Rightarrow> bool" where
  "has_stdout response = (truthy_bool (success response) \<and> truthy_str (stdout response))"

text \<open>
  The string held by a field; \<open>has_stdout\<close> makes sure that there is one where
  the script calls \<^verbatim>\<open>split\<close> on it.
\<close>

definition string_of :: "string field \<Rightarrow> string" where
  "string_of f = (case f of Present s \<Rightarrow> s | _ \<Rightarrow> [])"

text \<open>
  The entry point behind its \<^verbatim>\<open>await\<close>, for any object \<open>response\<close>. Its last line
  is the throw at the end of the function.
\<close>

definition handle_response :: "env \<Rightarrow> os_object \<Rightarrow> int settled" where
  "handle_response e response =
     (if has_error response then
        (if error response = Present (ErrStr ''UNKNOWN_ERROR'')
         then ([], Inl (ThrownInt GENERAL_ERROR))
         else ([], Inl (ThrownInt COMMAND_CANNOT_EXECUTE)))
      else if nothing_staged response then ([], Inr 0)
      else if has_stdout response then
        (let cfs = changed_files (platform e) (string_of (stdout response)) in
         if length cfs \<noteq> 0 then lint_files e cfs else ([], Inr 0))
      else ([], Inl (ThrownInt GENERAL_ERROR)))"

text \<open>
  The exported function. \<^verbatim>\<open>await\<close> on a promise that rejects throws the value it
  rejected with; no \<^verbatim>\<open>try\<close> encloses the \<^verbatim>\<open>await\<close>, so the entry point rejects with
  that value.
\<close>

definition xlint :: "env \<Rightarrow> int settled" where
  "xlint e =
     (case os_run (exec e) git_cmd of
        (evs, Inl ret) \<Rightarrow> (evs, Inl (ThrownObject ret))
      | (evs, Inr response) \<Rightarrow>
          (case handle_response e response of (evs', r) \<Rightarrow> (evs @ evs', r)))"

text \<open>The paths the lint engine was invoked with, one entry per invocation.\<close>

fun lint_calls :: "event list \<Rightarrow> string list list" where
  "lint_calls [] = []"
| "lint_calls (Lint cfs # evs) = cfs # lint_calls evs"
| "lint_calls (_ # evs) = lint_calls evs"

text \<open>
  The file filter in the words of the specification: a path is retained when it ends in
  a source-file extension, that is in a dot and one of the four spellings, and is not
  the reserved path of the hook itself.
\<close>

definition source_extensions :: "string list" where
  "source_extensions = [''js'', ''jsx'', ''ts'', ''tsx'']"

definition has_source_extension :: "string \<Rightarrow> bool" where
  "has_source_extension cf = (\<exists>ext \<in> set source_extensions. suffix (CHR ''.'' # ext) cf)"

definition spec_retained :: "string \<Rightarrow> bool" where
  "spec_retained cf = (has_source_extension cf \<and> cf \<noteq> ''scripts/pre-commit.js'')"

section \<open>Properties\<close>

subsection \<open>Splitting and filtering\<close>

lemma CR_neq_LF: "CR \<noteq> LF"
  by (simp add: CR_def LF_def)

lemma match_here_iff:
  "match_here r \<longleftrightarrow> r = ''js'' \<or> r = ''jsx'' \<or> r = ''ts'' \<or> r = ''tsx''"
  by (auto simp: match_here_def split: list.splits)

lemma regex_test_iff_suffix:
  "regex_test cf \<longleftrightarrow> suffix ''js'' cf \<or> suffix ''jsx'' cf \<or> suffix ''ts'' cf \<or> suffix ''tsx'' cf"
proof (induction cf)
  case Nil
  show ?case by (simp add: match_here_iff)
next
  case (Cons c cs)
  show ?case
    unfolding regex_test.simps match_here_iff Cons.IH suffix_Cons [of _ c cs] by blast
qed

lemma split_from_trailing_LF:
  "split_from [LF] cur (s @ [LF]) = split_from [LF] cur s @ [[]]"
  by (induction s arbitrary: cur) simp_all

lemma split_from_miss:
  "\<not> prefix sep (c # cs) \<Longrightarrow> split_from sep cur (c # cs) = split_from sep (cur @ [c]) cs"
  by simp

lemma split_from_CRLF_hit:
  "split_from [CR, LF] cur (CR # LF # ds) = cur # split_from [CR, LF] [] ds"
  by simp

lemma split_from_trailing_CRLF:
  "split_from [CR, LF] cur (s @ [CR, LF]) = split_from [CR, LF] cur s @ [[]]"
proof (induction s arbitrary: cur rule: length_induct)
  case (1 s)
  show ?case
  proof (cases s)
    case Nil
    then show ?thesis by simp
  next
    case (Cons c cs)
    show ?thesis
    proof (cases "prefix [CR, LF] (c # cs)")
      case True
      then obtain ds where cs: "c = CR" "cs = LF # ds"
        by (cases cs) auto
      have "split_from [CR, LF] [] (ds @ [CR, LF]) = split_from [CR, LF] [] ds @ [[]]"
        using 1 Cons cs by simp
      then show ?thesis
        unfolding Cons cs by (simp only: append_Cons split_from_CRLF_hit)
    next
      case False
      then have no: "\<not> prefix [CR, LF] (c # (cs @ [CR, LF]))"
        using CR_neq_LF by (cases cs) auto
      have "split_from [CR, LF] (cur @ [c]) (cs @ [CR, LF]) = split_from [CR, LF] (cur @ [c]) cs @ [[]]"
        using 1 Cons by simp
      then show ?thesis
        unfolding Cons by (simp only: append_Cons split_from_miss [OF False] split_from_miss [OF no])
    qed
  qed
qed

lemma js_split_trailing:
  "js_split (out @ new_line pf) (new_line pf) = js_split out (new_line pf) @ [[]]"
  by (simp add: js_split_def new_line_def split_from_trailing_LF split_from_trailing_CRLF)

lemma keep_Nil: "\<not> keep []"
  by (simp add: keep_def)

lemma keep_iff_letters:
  "keep cf \<longleftrightarrow> (\<exists>ext \<in> set source_extensions. suffix ext cf) \<and> cf \<noteq> ''scripts/pre-commit.js''"
  by (auto simp: keep_def source_extensions_def regex_test_iff_suffix ignored_files_def)

lemma spec_retained_keep: "spec_retained cf \<Longrightarrow> keep cf"
  unfolding keep_iff_letters spec_retained_def has_source_extension_def
  by (blast dest: suffix_ConsD)

lemma changed_files_keeps_spec_retained:
  "filter spec_retained (changed_files pf out) = filter spec_retained (js_split out (new_line pf))"
proof -
  have "(\<lambda>cf. keep cf \<and> spec_retained cf) = spec_retained"
    using spec_retained_keep by blast
  then show ?thesis
    by (simp add: changed_files_def)
qed

lemma changed_files_subseq:
  "subseq (changed_files pf out) (js_split out (new_line pf))"
  by (simp add: changed_files_def)

lemma changed_files_only_keep: "cf \<in> set (changed_files pf out) \<Longrightarrow> keep cf"
  by (simp add: changed_files_def)

lemma letters_not_extension:
  "changed_files ''linux'' (''fonts'' @ [LF] @ ''etc/hosts'' @ [LF] @ ''lib/a.mjs'' @ [LF])
     = [''fonts'', ''etc/hosts'', ''lib/a.mjs'']"
  by (simp add: changed_files_def js_split_def new_line_def keep_def match_here_def
      ignored_files_def LF_def)

lemma changed_files_trailing:
  "changed_files pf (out @ new_line pf) = changed_files pf out"
  by (simp add: changed_files_def js_split_trailing keep_Nil)

lemma example_tsx_readme:
  "pf \<noteq> ''win32'' \<Longrightarrow>
   changed_files pf (''src/a.tsx'' @ [LF] @ ''README.md'' @ [LF]) = [''src/a.tsx'']"
  by (simp add: changed_files_def js_split_def new_line_def keep_def match_here_def
      ignored_files_def LF_def)

lemma example_tsx_readme_win32:
  "changed_files ''win32'' (''src/a.tsx'' @ [LF] @ ''README.md'' @ [LF]) = []"
  by (simp add: changed_files_def js_split_def new_line_def keep_def match_here_def
      ignored_files_def LF_def CR_def)

lemma example_precommit:
  "changed_files pf (''scripts/pre-commit.js'' @ [LF]) = []"
  by (simp add: changed_files_def js_split_def new_line_def keep_def match_here_def
      ignored_files_def LF_def CR_def)

lemma example_ts_js:
  "new_line pf = [LF] \<Longrightarrow> changed_files pf (''a.ts'' @ [LF] @ ''b.js'' @ [LF]) = [''a.ts'', ''b.js'']"
  by (simp add: changed_files_def js_split_def keep_def match_here_def
      ignored_files_def LF_def)

subsection \<open>Settling the promises\<close>

lemma os_run_resolves:
  assumes "snd (os_run ex cmd) = Inr response"
  shows "fst (os_run ex cmd) = [Exec cmd]"
    and "cb_error (ex cmd) = None"
    and "response = \<lparr>error = Absent, stderr = Absent, success = Present True,
           stdout = (if cb_stdout (ex cmd) = [] then Null else Present (cb_stdout (ex cmd)))\<rparr>"
  using assms
  by (auto simp: os_run_def os_run_callback_def Let_def split: option.splits if_splits)

lemma os_run_rejects:
  assumes "snd (os_run ex cmd) = Inl ret"
  shows "truthy_err (error ret)"
  using assms
  by (auto simp: os_run_def os_run_callback_def Let_def truthy_err_def split: option.splits if_splits)

lemma os_run_stdout:
  assumes "cb_error (ex cmd) = None" and "cb_stdout (ex cmd) = out" and "out \<noteq> []"
  shows "os_run ex cmd = ([Exec cmd], Inr \<lparr>error = Absent, stderr = Absent, success = Present True,
           stdout = Present out\<rparr>)"
  using assms by (simp add: os_run_def os_run_callback_def)

lemma xlint_resolved:
  assumes "snd (os_run (exec e) git_cmd) = Inr response"
  shows "xlint e = (Exec git_cmd # fst (handle_response e response), snd (handle_response e response))"
proof -
  obtain evs where "os_run (exec e) git_cmd = (evs, Inr response)"
    using assms by (cases "os_run (exec e) git_cmd") simp
  moreover from this have "evs = [Exec git_cmd]"
    using os_run_resolves(1) [OF assms] by simp
  ultimately show ?thesis
    by (simp add: xlint_def split: prod.splits)
qed

lemma xlint_rejected:
  assumes "snd (os_run (exec e) git_cmd) = Inl ret"
  shows "snd (xlint e) = Inl (ThrownObject ret)"
  using assms by (cases "os_run (exec e) git_cmd") (simp add: xlint_def)

lemma handle_response_null:
  assumes "error r = Absent" and "success r = Present True" and "stdout r = Null"
  shows "handle_response e r = ([], Inr 0)"
  using assms
  by (simp add: handle_response_def has_error_def truthy_err_def nothing_staged_def truthy_bool_def)

lemma handle_response_stdout:
  assumes "error r = Absent" and "success r = Present True" and "stdout r = Present out"
    and "out \<noteq> []"
  shows "handle_response e r =
    (if changed_files (platform e) out \<noteq> [] then lint_files e (changed_files (platform e) out)
     else ([], Inr 0))"
  using assms
  by (simp add: handle_response_def has_error_def truthy_err_def nothing_staged_def
      truthy_bool_def has_stdout_def truthy_str_def string_of_def)

lemma changed_files_empty_output: "changed_files pf [] = []"
  by (simp add: changed_files_def js_split_def new_line_def keep_Nil)

lemma xlint_stdout:
  assumes "snd (os_run (exec e) git_cmd) = Inr response" and "stdout response = Present out"
  shows "xlint e =
    (if changed_files (platform e) out \<noteq> []
     then (Exec git_cmd # fst (lint_files e (changed_files (platform e) out)),
           snd (lint_files e (changed_files (platform e) out)))
     else ([Exec git_cmd], Inr 0))"
proof -
  note shape = os_run_resolves(3) [OF assms(1)]
  have "out \<noteq> []"
    using shape assms(2) by (auto split: if_splits)
  moreover have "error response = Absent" "success response = Present True"
    using shape by simp_all
  ultimately show ?thesis
    using assms(2) by (simp add: xlint_resolved [OF assms(1)] handle_response_stdout)
qed

lemma lint_files_settles:
  "snd (lint_files e cfs) = Inr 0 \<or> snd (lint_files e cfs) = Inl (ThrownInt COMMAND_CANNOT_EXECUTE)"
  by (simp add: lint_files_def try_lint_def split: sum.splits)

lemma lint_calls_lint_files:
  "lint_calls (fst (lint_files e cfs)) = (case new_ESLint e of Inl err \<Rightarrow> [] | Inr eslint \<Rightarrow> [cfs])"
  by (simp add: lint_files_def try_lint_def split: sum.splits)

lemma lint_files_constructor_throws:
  assumes "new_ESLint e = Inl err"
  shows "lint_files e cfs =
    ([LogWith ''Failed to run ESLint, error: '' (ThrownByEngine err)],
     Inl (ThrownInt COMMAND_CANNOT_EXECUTE))"
  using assms by (simp add: lint_files_def try_lint_def)

lemma lint_files_lintFiles_throws:
  assumes "new_ESLint e = Inr eslint" and "lintFiles eslint cfs = Inl err"
  shows "lint_files e cfs =
    ([Lint cfs, LogWith ''Failed to run ESLint, error: '' (ThrownByEngine err)],
     Inl (ThrownInt COMMAND_CANNOT_EXECUTE))"
  using assms by (simp add: lint_files_def try_lint_def)

lemma lint_files_loadFormatter_throws:
  assumes "new_ESLint e = Inr eslint" and "lintFiles eslint cfs = Inr results"
    and "loadFormatter eslint ''stylish'' = Inl err"
  shows "lint_files e cfs =
    ([Lint cfs, LogWith ''Failed to run ESLint, error: '' (ThrownByEngine err)],
     Inl (ThrownInt COMMAND_CANNOT_EXECUTE))"
  using assms by (simp add: lint_files_def try_lint_def)

lemma lint_files_format_throws:
  assumes "new_ESLint e = Inr eslint" and "lintFiles eslint cfs = Inr results"
    and "loadFormatter eslint ''stylish'' = Inr fmt" and "format fmt results = Inl err"
  shows "lint_files e cfs =
    ([Lint cfs, LogWith ''Failed to run ESLint, error: '' (ThrownByEngine err)],
     Inl (ThrownInt COMMAND_CANNOT_EXECUTE))"
  using assms by (simp add: lint_files_def try_lint_def)

lemma lint_files_object_clean:
  assumes "new_ESLint e = Inr eslint"
    and "lintFiles eslint cfs = Inr (ResultObject (Present 0) (Present 0) (Present 0) (Present 0))"
    and "loadFormatter eslint ''stylish'' = Inr fmt"
    and "format fmt (ResultObject (Present 0) (Present 0) (Present 0) (Present 0)) = Inr prettyResults"
  shows "lint_files e cfs = ([Lint cfs, Log prettyResults], Inr 0)"
  using assms by (simp add: lint_files_def try_lint_def strict_eq_0_def loose_eq_0_def)

lemma lint_files_array:
  assumes "new_ESLint e = Inr eslint" and "lintFiles eslint cfs = Inr (ResultArray rs)"
    and "loadFormatter eslint ''stylish'' = Inr fmt"
    and "format fmt (ResultArray rs) = Inr prettyResults"
  shows "lint_files e cfs =
    ([Lint cfs, Log prettyResults, Log ''LINTING ERRORS'',
      LogWith ''Failed to run ESLint, error: '' (ThrownInt GENERAL_ERROR)],
     Inl (ThrownInt COMMAND_CANNOT_EXECUTE))"
  using assms by (simp add: lint_files_def try_lint_def strict_eq_0_def)

lemma lint_files_findings:
  assumes "new_ESLint e = Inr eslint" and "lintFiles eslint cfs = Inr results"
    and "loadFormatter eslint ''stylish'' = Inr fmt"
    and "format fmt results = Inr prettyResults"
    and "errorCount results \<noteq> Present 0 \<or> warningCount results \<noteq> Present 0 \<or>
         fixableErrorCount results \<noteq> Present 0 \<or> fixableWarningCount results \<noteq> Present 0"
  shows "lint_files e cfs =
    ([Lint cfs, Log prettyResults, Log ''LINTING ERRORS'',
      LogWith ''Failed to run ESLint, error: '' (ThrownInt GENERAL_ERROR)],
     Inl (ThrownInt COMMAND_CANNOT_EXECUTE))"
  using assms
  by (auto simp: lint_files_def try_lint_def strict_eq_0_def loose_eq_0_def split: field.splits)

lemma xlint_never_general_error: "snd (xlint e) \<noteq> Inl (ThrownInt GENERAL_ERROR)"
proof (cases "snd (os_run (exec e) git_cmd)")
  case (Inl ret)
  then show ?thesis
    by (simp add: xlint_rejected)
next
  case (Inr response)
  note shape = os_run_resolves(3) [OF Inr]
  show ?thesis
  proof (cases "cb_stdout (exec e git_cmd) = []")
    case True
    with shape have "handle_response e response = ([], Inr 0)"
      by (intro handle_response_null) simp_all
    then show ?thesis
      by (simp add: xlint_resolved [OF Inr])
  next
    case False
    with shape have "stdout response = Present (cb_stdout (exec e git_cmd))"
      by simp
    from xlint_stdout [OF Inr this] lint_files_settles [of e "changed_files (platform e) (cb_stdout (exec e git_cmd))"]
    show ?thesis
      by (auto simp: GENERAL_ERROR_def COMMAND_CANNOT_EXECUTE_def split: if_splits)
  qed
qed

lemma handle_response_falls_through:
  assumes "\<not> has_error r" and "\<not> nothing_staged r" and "\<not> has_stdout r"
  shows "handle_response e r = ([], Inl (ThrownInt GENERAL_ERROR))"
  using assms by (simp add: handle_response_def)

lemma falls_through_example:
  "handle_response e \<lparr>error = Absent, stderr = Absent, success = Present True, stdout = Present []\<rparr>
     = ([], Inl (ThrownInt GENERAL_ERROR))"
  by (simp add: handle_response_def has_error_def truthy_err_def nothing_staged_def
      has_stdout_def truthy_str_def)

section \<open>The claims\<close>

section \<open>The claims\<close>

text \<open>
  C1. The claim: whenever one of the four counts of the findings aggregate is not zero,
  the entry point rejects with \<open>GENERAL_ERROR\<close>, the integer 1; so for the
  aggregate with no error and one warning. The script throws \<open>GENERAL_ERROR\<close>
  inside its \<^verbatim>\<open>try\<close> block, the \<^verbatim>\<open>catch\<close> clause of that block receives it, logs it
  as a failure of ESLint and throws \<open>COMMAND_CANNOT_EXECUTE\<close>: the entry point
  rejects with 126, both when \<^verbatim>\<open>results\<close> is an object with the four counts of the
  claim and when it is the array ESLint gives for one file with one warning.
\<close>

theorem warning_only_rejects_cannot_execute:
  "xlint \<lparr>exec = (\<lambda>cmd. \<lparr>cb_error = None, cb_stdout = ''src/a.ts'' @ [LF], cb_stderr = []\<rparr>),
          platform = ''linux'',
          new_ESLint = Inr \<lparr>
            lintFiles = (\<lambda>cfs. Inr (ResultObject (Present 0) (Present 1) (Present 0) (Present 0))),
            loadFormatter = (\<lambda>name. Inr \<lparr>format = (\<lambda>results. Inr ''1 warning'')\<rparr>)\<rparr>\<rparr>
   = ([Exec git_cmd, Lint [''src/a.ts''], Log ''1 warning'', Log ''LINTING ERRORS'',
       LogWith ''Failed to run ESLint, error: '' (ThrownInt 1)],
      Inl (ThrownInt 126)) \<and>
   xlint \<lparr>exec = (\<lambda>cmd. \<lparr>cb_error = None, cb_stdout = ''src/a.ts'' @ [LF], cb_stderr = []\<rparr>),
          platform = ''linux'',
          new_ESLint = Inr \<lparr>
            lintFiles = (\<lambda>cfs. Inr (ResultArray [\<lparr>file_path = ''src/a.ts'', file_errorCount = 0,
              file_warningCount = 1, file_fixableErrorCount = 0, file_fixableWarningCount = 0\<rparr>])),
            loadFormatter = (\<lambda>name. Inr \<lparr>format = (\<lambda>results. Inr ''1 warning'')\<rparr>)\<rparr>\<rparr>
   = ([Exec git_cmd, Lint [''src/a.ts''], Log ''1 warning'', Log ''LINTING ERRORS'',
       LogWith ''Failed to run ESLint, error: '' (ThrownInt 1)],
      Inl (ThrownInt 126))"
  by (simp add: xlint_def os_run_def os_run_callback_def handle_response_def has_error_def
      truthy_err_def nothing_staged_def has_stdout_def truthy_bool_def truthy_str_def
      string_of_def changed_files_def js_split_def new_line_def keep_def match_here_def
      ignored_files_def lint_files_def try_lint_def strict_eq_0_def loose_eq_0_def
      GENERAL_ERROR_def COMMAND_CANNOT_EXECUTE_def LF_def)

text \<open>
  C2. The claim: when the resolver fails, the entry point rejects with 1 if the
  resolver signalled \<open>UNKNOWN_ERROR\<close> and with 126 otherwise, and with no other value.
  \<^verbatim>\<open>os_run\<close> rejects its promise on failure, so the \<^verbatim>\<open>await\<close> throws and the
  test of \<^verbatim>\<open>response.error\<close> behind it is never reached: the entry point rejects with
  the object \<^verbatim>\<open>os_run\<close> built, both for a command that could not run and for output
  on the error stream alone.
\<close>

theorem resolver_failure_rejects_with_object:
  "snd (xlint \<lparr>exec = (\<lambda>cmd. \<lparr>cb_error = Some ''spawn git ENOENT'', cb_stdout = [], cb_stderr = []\<rparr>),
               platform = ''linux'', new_ESLint = Inl []\<rparr>)
     = Inl (ThrownObject \<lparr>error = Present (ErrorObj ''spawn git ENOENT''), stderr = Null,
                           success = Absent, stdout = Absent\<rparr>)
   \<and> snd (xlint \<lparr>exec = (\<lambda>cmd. \<lparr>cb_error = None, cb_stdout = [], cb_stderr = ''warning: x''\<rparr>),
               platform = ''linux'', new_ESLint = Inl []\<rparr>)
     = Inl (ThrownObject \<lparr>error = Present (ErrStr ''UNKNOWN_ERROR''), stderr = Present ''warning: x'',
                           success = Absent, stdout = Absent\<rparr>)"
  by (simp add: xlint_def os_run_def os_run_callback_def Let_def)

text \<open>
  C3, as amended. The filtered list is made of entries of the split listing, in their
  order. It holds every entry that ends in one of \<^verbatim>\<open>.js\<close>, \<^verbatim>\<open>.jsx\<close>, \<^verbatim>\<open>.ts\<close>,
  \<^verbatim>\<open>.tsx\<close> and is not \<^verbatim>\<open>scripts/pre-commit.js\<close>; it never holds that path, nor
  an empty entry, nor an entry that does not end in \<^verbatim>\<open>js\<close>, \<^verbatim>\<open>jsx\<close>, \<^verbatim>\<open>ts\<close> or
  \<^verbatim>\<open>tsx\<close>. (What becomes of an entry that ends in these letters with no dot before
  them is not part of the statement; \<open>letters_not_extension\<close> shows it.) On a host
  whose identifier is not \<^verbatim>\<open>win32\<close>, the listing of \<^verbatim>\<open>src/a.tsx\<close> and
  \<^verbatim>\<open>README.md\<close>, each followed by a line feed, gives the list of \<^verbatim>\<open>src/a.tsx\<close>
  alone, and \<^verbatim>\<open>lintFiles\<close> is called once, with that list, unless
  \<^verbatim>\<open>new ESLint()\<close> throws, when it is not called.
\<close>

theorem changed_files_retains_source_paths:
  "subseq (changed_files pf out) (js_split out (new_line pf)) \<and>
   filter spec_retained (changed_files pf out) = filter spec_retained (js_split out (new_line pf)) \<and>
   ''scripts/pre-commit.js'' \<notin> set (changed_files pf out) \<and>
   [] \<notin> set (changed_files pf out) \<and>
   (\<forall>cf \<in> set (changed_files pf out). \<exists>ext \<in> set source_extensions. suffix ext cf) \<and>
   (pf \<noteq> ''win32'' \<longrightarrow>
      changed_files pf (''src/a.tsx'' @ [LF] @ ''README.md'' @ [LF]) = [''src/a.tsx'']) \<and>
   (platform e \<noteq> ''win32'' \<and> cb_error (exec e git_cmd) = None \<and>
    cb_stdout (exec e git_cmd) = ''src/a.tsx'' @ [LF] @ ''README.md'' @ [LF] \<longrightarrow>
      lint_calls (fst (xlint e)) =
        (case new_ESLint e of Inl err \<Rightarrow> [] | Inr eslint \<Rightarrow> [[''src/a.tsx'']]))"
proof (intro conjI impI ballI)
  show "subseq (changed_files pf out) (js_split out (new_line pf))"
    by (rule changed_files_subseq)
next
  show "filter spec_retained (changed_files pf out) = filter spec_retained (js_split out (new_line pf))"
    by (rule changed_files_keeps_spec_retained)
next
  show "''scripts/pre-commit.js'' \<notin> set (changed_files pf out)"
    using changed_files_only_keep [of "''scripts/pre-commit.js''" pf out] keep_iff_letters by blast
next
  show "[] \<notin> set (changed_files pf out)"
    using changed_files_only_keep [of "[]" pf out] keep_Nil by blast
next
  fix cf assume "cf \<in> set (changed_files pf out)"
  then show "\<exists>ext \<in> set source_extensions. suffix ext cf"
    using changed_files_only_keep keep_iff_letters by blast
next
  assume "pf \<noteq> ''win32''"
  then show "changed_files pf (''src/a.tsx'' @ [LF] @ ''README.md'' @ [LF]) = [''src/a.tsx'']"
    by (rule example_tsx_readme)
next
  let ?out = "''src/a.tsx'' @ [LF] @ ''README.md'' @ [LF]"
  assume a: "platform e \<noteq> ''win32'' \<and> cb_error (exec e git_cmd) = None \<and>
    cb_stdout (exec e git_cmd) = ?out"
  then have run: "os_run (exec e) git_cmd = ([Exec git_cmd],
      Inr \<lparr>error = Absent, stderr = Absent, success = Present True, stdout = Present ?out\<rparr>)"
    by (intro os_run_stdout) simp_all
  have cfs: "changed_files (platform e) ?out = [''src/a.tsx'']"
    using a by (intro example_tsx_readme) simp
  have "xlint e = (Exec git_cmd # fst (lint_files e [''src/a.tsx'']), snd (lint_files e [''src/a.tsx'']))"
    using xlint_stdout [of e _ ?out] run cfs by simp
  then show "lint_calls (fst (xlint e)) =
      (case new_ESLint e of Inl err \<Rightarrow> [] | Inr eslint \<Rightarrow> [[''src/a.tsx'']])"
    by (simp add: lint_calls_lint_files)
qed

theorem changed_files_retains_source_paths_witness:
  "''linux'' \<noteq> ''win32'' \<and>
   filter spec_retained (changed_files ''linux''
      (''lib/b.jsx'' @ [LF] @ ''scripts/pre-commit.js'' @ [LF] @ ''a.css'' @ [LF] @ ''x.ts''))
     = [''lib/b.jsx'', ''x.ts''] \<and>
   ''lib/b.jsx'' \<in> set (changed_files ''linux''
      (''lib/b.jsx'' @ [LF] @ ''scripts/pre-commit.js'' @ [LF] @ ''a.css'' @ [LF] @ ''x.ts'')) \<and>
   suffix ''jsx'' ''lib/b.jsx'' \<and>
   changed_files ''linux'' (''src/a.tsx'' @ [LF] @ ''README.md'' @ [LF]) = [''src/a.tsx''] \<and>
   lint_calls (fst (xlint \<lparr>exec = (\<lambda>cmd. \<lparr>cb_error = None,
       cb_stdout = ''src/a.tsx'' @ [LF] @ ''README.md'' @ [LF], cb_stderr = []\<rparr>),
     platform = ''linux'',
     new_ESLint = Inr \<lparr>lintFiles = (\<lambda>cfs. Inl ''no configuration''),
                        loadFormatter = (\<lambda>name. Inl ''no formatter'')\<rparr>\<rparr>)) = [[''src/a.tsx'']]"
proof -
  let ?out = "''lib/b.jsx'' @ [LF] @ ''scripts/pre-commit.js'' @ [LF] @ ''a.css'' @ [LF] @ ''x.ts''"
  let ?e = "\<lparr>exec = (\<lambda>cmd. \<lparr>cb_error = None,
       cb_stdout = ''src/a.tsx'' @ [LF] @ ''README.md'' @ [LF], cb_stderr = []\<rparr>),
     platform = ''linux'',
     new_ESLint = Inr \<lparr>lintFiles = (\<lambda>cfs. Inl ''no configuration''),
                        loadFormatter = (\<lambda>name. Inl ''no formatter'')\<rparr>\<rparr>"
  note inst = changed_files_retains_source_paths [of "''linux''" ?out ?e]
  note kept = inst [THEN conjunct2, THEN conjunct1]
  note example = inst [THEN conjunct2, THEN conjunct2, THEN conjunct2, THEN conjunct2,
    THEN conjunct2, THEN conjunct1, rule_format]
  note calls = inst [THEN conjunct2, THEN conjunct2, THEN conjunct2, THEN conjunct2,
    THEN conjunct2, THEN conjunct2, rule_format]
  have host: "''linux'' \<noteq> ''win32''"
    by simp
  have split: "js_split ?out (new_line ''linux'')
      = [''lib/b.jsx'', ''scripts/pre-commit.js'', ''a.css'', ''x.ts'']"
    by (simp add: js_split_def new_line_def LF_def)
  have retained: "filter spec_retained [''lib/b.jsx'', ''scripts/pre-commit.js'', ''a.css'', ''x.ts'']
      = [''lib/b.jsx'', ''x.ts'']"
    by (simp add: spec_retained_def has_source_extension_def source_extensions_def suffix_def)
  have 1: "filter spec_retained (changed_files ''linux'' ?out) = [''lib/b.jsx'', ''x.ts'']"
    by (simp only: kept split retained)
  have "''lib/b.jsx'' \<in> set (filter spec_retained (changed_files ''linux'' ?out))"
    by (simp only: 1 list.set_intros)
  then have 2: "''lib/b.jsx'' \<in> set (changed_files ''linux'' ?out)"
    by (simp only: set_filter mem_Collect_eq)
  have 3: "suffix ''jsx'' ''lib/b.jsx''"
    by (simp add: suffix_def)
  have hyp: "platform ?e \<noteq> ''win32'' \<and> cb_error (exec ?e git_cmd) = None \<and>
    cb_stdout (exec ?e git_cmd) = ''src/a.tsx'' @ [LF] @ ''README.md'' @ [LF]"
    by simp
  have 4: "changed_files ''linux'' (''src/a.tsx'' @ [LF] @ ''README.md'' @ [LF]) = [''src/a.tsx'']"
    using host by (rule example)
  have "lint_calls (fst (xlint ?e)) =
      (case new_ESLint ?e of Inl err \<Rightarrow> [] | Inr eslint \<Rightarrow> [[''src/a.tsx'']])"
    using hyp by (rule calls)
  then have 5: "lint_calls (fst (xlint ?e)) = [[''src/a.tsx'']]"
    by simp
  from host 1 2 3 4 5 show ?thesis
    by (intro conjI)
qed

text \<open>
  C3 as first stated has no condition on the host: on \<^verbatim>\<open>win32\<close> the listing is split
  at carriage return and line feed only, stays in one piece, and nothing is retained.
\<close>

theorem tsx_readme_on_win32_counterexample:
  "changed_files ''win32'' (''src/a.tsx'' @ [LF] @ ''README.md'' @ [LF]) \<noteq> [''src/a.tsx'']"
  by (simp add: changed_files_def js_split_def new_line_def keep_def match_here_def
      ignored_files_def LF_def CR_def)

text \<open>
  C4. The claim: when the four counts of the findings aggregate are all zero, the
  entry point resolves with 0. \<^verbatim>\<open>lintFiles\<close> resolves with an array of results, one
  per file, and the script reads the four counts from the array itself, where they are
  \<^verbatim>\<open>undefined\<close>: the comparison with 0 fails, the script throws \<open>GENERAL_ERROR\<close>
  and its own \<^verbatim>\<open>catch\<close> clause turns that into \<open>COMMAND_CANNOT_EXECUTE\<close>. For one
  file without a finding the entry point rejects with 126.
\<close>

theorem clean_run_rejects_cannot_execute:
  "xlint \<lparr>exec = (\<lambda>cmd. \<lparr>cb_error = None, cb_stdout = ''src/a.ts'' @ [LF], cb_stderr = []\<rparr>),
          platform = ''linux'',
          new_ESLint = Inr \<lparr>
            lintFiles = (\<lambda>cfs. Inr (ResultArray [\<lparr>file_path = ''src/a.ts'', file_errorCount = 0,
              file_warningCount = 0, file_fixableErrorCount = 0, file_fixableWarningCount = 0\<rparr>])),
            loadFormatter = (\<lambda>name. Inr \<lparr>format = (\<lambda>results. Inr [])\<rparr>)\<rparr>\<rparr>
   = ([Exec git_cmd, Lint [''src/a.ts''], Log [], Log ''LINTING ERRORS'',
       LogWith ''Failed to run ESLint, error: '' (ThrownInt 1)],
      Inl (ThrownInt 126))"
  by (simp add: xlint_def os_run_def os_run_callback_def handle_response_def has_error_def
      truthy_err_def nothing_staged_def has_stdout_def truthy_bool_def truthy_str_def
      string_of_def changed_files_def js_split_def new_line_def keep_def match_here_def
      ignored_files_def lint_files_def try_lint_def strict_eq_0_def loose_eq_0_def
      GENERAL_ERROR_def COMMAND_CANNOT_EXECUTE_def LF_def)

text \<open>
  C5. When the resolver yields \<^verbatim>\<open>null\<close> for the listing (nothing is staged), the
  entry point resolves with 0 and the lint engine is not invoked.
\<close>

theorem null_output_resolves_zero:
  assumes "snd (os_run (exec e) git_cmd) = Inr response"
    and "stdout response = Null"
  shows "snd (xlint e) = Inr 0 \<and> lint_calls (fst (xlint e)) = []"
proof -
  note shape = os_run_resolves(3) [OF assms(1)]
  have "error response = Absent" and "success response = Present True"
    using shape by simp_all
  then have "handle_response e response = ([], Inr 0)"
    using assms(2) by (rule handle_response_null)
  then show ?thesis
    by (simp add: xlint_resolved [OF assms(1)])
qed

theorem null_output_resolves_zero_witness:
  "xlint \<lparr>exec = (\<lambda>cmd. \<lparr>cb_error = None, cb_stdout = [], cb_stderr = []\<rparr>),
          platform = ''linux'', new_ESLint = Inl ''never called''\<rparr>
     = ([Exec git_cmd], Inr 0)"
proof -
  let ?e = "\<lparr>exec = (\<lambda>cmd. \<lparr>cb_error = None, cb_stdout = [], cb_stderr = []\<rparr>),
          platform = ''linux'', new_ESLint = Inl ''never called''\<rparr>"
  let ?response = "\<lparr>error = Absent, stderr = Absent, success = Present True, stdout = Null\<rparr>"
  have 1: "snd (os_run (exec ?e) git_cmd) = Inr ?response"
    by (simp add: os_run_def os_run_callback_def)
  have 2: "stdout ?response = Null"
    by simp
  have "snd (xlint ?e) = Inr 0 \<and> lint_calls (fst (xlint ?e)) = []"
    using null_output_resolves_zero [OF 1 2] .
  moreover have "fst (xlint ?e) = [Exec git_cmd]"
    by (simp add: xlint_resolved [OF 1] handle_response_null)
  ultimately show ?thesis
    by (simp add: prod_eq_iff)
qed

text \<open>
  C6. When no path of the resolver's listing passes the filter, the entry point
  resolves with 0 and the lint engine is not invoked; so for the listing that holds
  \<^verbatim>\<open>scripts/pre-commit.js\<close> and a line feed, on every host.
\<close>

theorem empty_filter_resolves_zero:
  "(snd (os_run (exec e) git_cmd) = Inr response \<and> stdout response = Present out \<and>
    changed_files (platform e) out = [] \<longrightarrow>
      snd (xlint e) = Inr 0 \<and> lint_calls (fst (xlint e)) = []) \<and>
   (cb_error (exec e git_cmd) = None \<and>
    cb_stdout (exec e git_cmd) = ''scripts/pre-commit.js'' @ [LF] \<longrightarrow>
      snd (xlint e) = Inr 0 \<and> lint_calls (fst (xlint e)) = [])"
proof (intro conjI impI)
  assume a: "snd (os_run (exec e) git_cmd) = Inr response \<and> stdout response = Present out \<and>
    changed_files (platform e) out = []"
  then have "xlint e = ([Exec git_cmd], Inr 0)"
    using xlint_stdout [of e response out] by simp
  then show "snd (xlint e) = Inr 0" and "lint_calls (fst (xlint e)) = []"
    by simp_all
next
  let ?out = "''scripts/pre-commit.js'' @ [LF]"
  assume a: "cb_error (exec e git_cmd) = None \<and> cb_stdout (exec e git_cmd) = ?out"
  then have "os_run (exec e) git_cmd = ([Exec git_cmd],
      Inr \<lparr>error = Absent, stderr = Absent, success = Present True, stdout = Present ?out\<rparr>)"
    by (intro os_run_stdout) simp_all
  then have "xlint e = ([Exec git_cmd], Inr 0)"
    using xlint_stdout [of e _ ?out] example_precommit [of "platform e"] by simp
  then show "snd (xlint e) = Inr 0" and "lint_calls (fst (xlint e)) = []"
    by simp_all
qed

theorem empty_filter_resolves_zero_witness:
  "changed_files ''win32'' (''scripts/pre-commit.js'' @ [LF]) = [] \<and>
   snd (xlint \<lparr>exec = (\<lambda>cmd. \<lparr>cb_error = None, cb_stdout = ''scripts/pre-commit.js'' @ [LF],
                                 cb_stderr = []\<rparr>),
               platform = ''win32'', new_ESLint = Inl ''never called''\<rparr>) = Inr 0 \<and>
   lint_calls (fst (xlint \<lparr>exec = (\<lambda>cmd. \<lparr>cb_error = None,
                                 cb_stdout = ''scripts/pre-commit.js'' @ [LF], cb_stderr = []\<rparr>),
               platform = ''win32'', new_ESLint = Inl ''never called''\<rparr>)) = []"
proof -
  let ?out = "''scripts/pre-commit.js'' @ [LF]"
  let ?e = "\<lparr>exec = (\<lambda>cmd. \<lparr>cb_error = None, cb_stdout = ?out, cb_stderr = []\<rparr>),
               platform = ''win32'', new_ESLint = Inl ''never called''\<rparr>"
  let ?response = "\<lparr>error = Absent, stderr = Absent, success = Present True, stdout = Present ?out\<rparr>"
  have 1: "snd (os_run (exec ?e) git_cmd) = Inr ?response \<and> stdout ?response = Present ?out \<and>
    changed_files (platform ?e) ?out = []"
    by (simp add: os_run_def os_run_callback_def changed_files_def js_split_def new_line_def
        keep_def match_here_def ignored_files_def LF_def CR_def)
  have 2: "cb_error (exec ?e git_cmd) = None \<and> cb_stdout (exec ?e git_cmd) = ?out"
    by simp
  from 1 have 3: "changed_files ''win32'' ?out = []"
    by simp
  show ?thesis
    using empty_filter_resolves_zero [of ?e ?response ?out] 1 2 3 by blast
qed

text \<open>
  C7. A terminator at the end of the listing does not change the filtered list: the
  listing followed by the terminator of the host gives the same list as the listing
  alone. Where the terminator is the line feed, \<^verbatim>\<open>a.ts\<close> and \<^verbatim>\<open>b.js\<close>, each
  followed by a line feed, give the list of these two paths and no empty entry.
\<close>

theorem trailing_terminator_ignored:
  "changed_files pf (out @ new_line pf) = changed_files pf out \<and>
   (new_line pf = [CHR 0x0A] \<longrightarrow>
      changed_files pf (''a.ts'' @ [CHR 0x0A] @ ''b.js'' @ [CHR 0x0A]) = [''a.ts'', ''b.js''])"
proof (intro conjI impI)
  show "changed_files pf (out @ new_line pf) = changed_files pf out"
    by (rule changed_files_trailing)
next
  assume "new_line pf = [CHR 0x0A]"
  then have "new_line pf = [LF]"
    by (simp add: LF_def)
  then have "changed_files pf (''a.ts'' @ [LF] @ ''b.js'' @ [LF]) = [''a.ts'', ''b.js'']"
    by (rule example_ts_js)
  then show "changed_files pf (''a.ts'' @ [CHR 0x0A] @ ''b.js'' @ [CHR 0x0A]) = [''a.ts'', ''b.js'']"
    by (simp add: LF_def)
qed

theorem trailing_terminator_ignored_witness:
  "new_line ''darwin'' = [CHR 0x0A] \<and>
   changed_files ''darwin'' (''a.ts'' @ [CHR 0x0A] @ ''b.js'' @ [CHR 0x0A]) = [''a.ts'', ''b.js''] \<and>
   changed_files ''darwin'' (''a.ts'' @ [CHR 0x0A] @ ''b.js'') = [''a.ts'', ''b.js'']"
proof -
  have nl: "new_line ''darwin'' = [CHR 0x0A]"
    by (simp add: new_line_def LF_def)
  have "changed_files ''darwin'' ((''a.ts'' @ [CHR 0x0A] @ ''b.js'') @ new_line ''darwin'')
          = changed_files ''darwin'' (''a.ts'' @ [CHR 0x0A] @ ''b.js'')"
    and "changed_files ''darwin'' (''a.ts'' @ [CHR 0x0A] @ ''b.js'' @ [CHR 0x0A]) = [''a.ts'', ''b.js'']"
    using trailing_terminator_ignored [of "''darwin''" "''a.ts'' @ [CHR 0x0A] @ ''b.js''"] nl
    by blast+
  then show ?thesis
    using nl by simp
qed

text \<open>
  C8. When the resolver yields a listing, some path of it passes the filter and one of
  the calls to the lint engine throws (\<^verbatim>\<open>new ESLint()\<close>, \<^verbatim>\<open>lintFiles\<close>,
  \<^verbatim>\<open>loadFormatter\<close> or \<^verbatim>\<open>format\<close>), the entry point rejects with
  \<open>COMMAND_CANNOT_EXECUTE\<close>, the integer 126, and the last thing it does before is to
  log what the engine threw.
\<close>

theorem engine_failure_rejects_cannot_execute:
  assumes "snd (os_run (exec e) git_cmd) = Inr response"
    and "stdout response = Present out"
    and "changed_files (platform e) out = cfs"
    and "cfs \<noteq> []"
  shows
   "(new_ESLint e = Inl err \<longrightarrow>
       xlint e =
         ([Exec git_cmd, LogWith ''Failed to run ESLint, error: '' (ThrownByEngine err)],
          Inl (ThrownInt 126))) \<and>
    (new_ESLint e = Inr eslint \<and> lintFiles eslint cfs = Inl err \<longrightarrow>
       xlint e =
         ([Exec git_cmd, Lint cfs, LogWith ''Failed to run ESLint, error: '' (ThrownByEngine err)],
          Inl (ThrownInt 126))) \<and>
    (new_ESLint e = Inr eslint \<and> lintFiles eslint cfs = Inr results \<and>
     loadFormatter eslint ''stylish'' = Inl err \<longrightarrow>
       xlint e =
         ([Exec git_cmd, Lint cfs, LogWith ''Failed to run ESLint, error: '' (ThrownByEngine err)],
          Inl (ThrownInt 126))) \<and>
    (new_ESLint e = Inr eslint \<and> lintFiles eslint cfs = Inr results \<and>
     loadFormatter eslint ''stylish'' = Inr fmt \<and> format fmt results = Inl err \<longrightarrow>
       xlint e =
         ([Exec git_cmd, Lint cfs, LogWith ''Failed to run ESLint, error: '' (ThrownByEngine err)],
          Inl (ThrownInt 126)))"
proof -
  have run: "xlint e = (Exec git_cmd # fst (lint_files e cfs), snd (lint_files e cfs))"
    using xlint_stdout [OF assms(1,2)] assms(3,4) by simp
  show ?thesis
  proof (intro conjI impI)
    assume "new_ESLint e = Inl err"
    then show "xlint e =
        ([Exec git_cmd, LogWith ''Failed to run ESLint, error: '' (ThrownByEngine err)],
         Inl (ThrownInt 126))"
      by (simp add: run lint_files_constructor_throws COMMAND_CANNOT_EXECUTE_def)
  next
    assume "new_ESLint e = Inr eslint \<and> lintFiles eslint cfs = Inl err"
    then show "xlint e =
        ([Exec git_cmd, Lint cfs, LogWith ''Failed to run ESLint, error: '' (ThrownByEngine err)],
         Inl (ThrownInt 126))"
      by (simp add: run lint_files_lintFiles_throws COMMAND_CANNOT_EXECUTE_def)
  next
    assume "new_ESLint e = Inr eslint \<and> lintFiles eslint cfs = Inr results \<and>
      loadFormatter eslint ''stylish'' = Inl err"
    then show "xlint e =
        ([Exec git_cmd, Lint cfs, LogWith ''Failed to run ESLint, error: '' (ThrownByEngine err)],
         Inl (ThrownInt 126))"
      by (simp add: run lint_files_loadFormatter_throws COMMAND_CANNOT_EXECUTE_def)
  next
    assume "new_ESLint e = Inr eslint \<and> lintFiles eslint cfs = Inr results \<and>
      loadFormatter eslint ''stylish'' = Inr fmt \<and> format fmt results = Inl err"
    then show "xlint e =
        ([Exec git_cmd, Lint cfs, LogWith ''Failed to run ESLint, error: '' (ThrownByEngine err)],
         Inl (ThrownInt 126))"
      by (simp add: run lint_files_format_throws COMMAND_CANNOT_EXECUTE_def)
  qed
qed

theorem engine_failure_rejects_cannot_execute_witness:
  "xlint \<lparr>exec = (\<lambda>cmd. \<lparr>cb_error = None, cb_stdout = ''lib/x.jsx'', cb_stderr = []\<rparr>),
          platform = ''win32'', new_ESLint = Inl ''Invalid Options''\<rparr>
   = ([Exec git_cmd, LogWith ''Failed to run ESLint, error: '' (ThrownByEngine ''Invalid Options'')],
      Inl (ThrownInt 126)) \<and>
   xlint \<lparr>exec = (\<lambda>cmd. \<lparr>cb_error = None, cb_stdout = ''lib/x.jsx'', cb_stderr = []\<rparr>),
          platform = ''win32'',
          new_ESLint = Inr \<lparr>lintFiles = (\<lambda>cfs. Inl ''No ESLint configuration found''),
                             loadFormatter = (\<lambda>name. Inl ''not reached'')\<rparr>\<rparr>
   = ([Exec git_cmd, Lint [''lib/x.jsx''],
       LogWith ''Failed to run ESLint, error: '' (ThrownByEngine ''No ESLint configuration found'')],
      Inl (ThrownInt 126)) \<and>
   xlint \<lparr>exec = (\<lambda>cmd. \<lparr>cb_error = None, cb_stdout = ''lib/x.jsx'', cb_stderr = []\<rparr>),
          platform = ''win32'',
          new_ESLint = Inr \<lparr>lintFiles = (\<lambda>cfs. Inr (ResultArray [])),
                             loadFormatter = (\<lambda>name. Inl ''no formatter'')\<rparr>\<rparr>
   = ([Exec git_cmd, Lint [''lib/x.jsx''],
       LogWith ''Failed to run ESLint, error: '' (ThrownByEngine ''no formatter'')],
      Inl (ThrownInt 126)) \<and>
   xlint \<lparr>exec = (\<lambda>cmd. \<lparr>cb_error = None, cb_stdout = ''lib/x.jsx'', cb_stderr = []\<rparr>),
          platform = ''win32'',
          new_ESLint = Inr \<lparr>lintFiles = (\<lambda>cfs. Inr (ResultArray [])),
                             loadFormatter = (\<lambda>name. Inr \<lparr>format = (\<lambda>results. Inl ''format failed'')\<rparr>)\<rparr>\<rparr>
   = ([Exec git_cmd, Lint [''lib/x.jsx''],
       LogWith ''Failed to run ESLint, error: '' (ThrownByEngine ''format failed'')],
      Inl (ThrownInt 126))"
proof -
  let ?ex = "\<lambda>cmd :: string. \<lparr>cb_error = None, cb_stdout = ''lib/x.jsx'', cb_stderr = []\<rparr>"
  let ?response = "\<lparr>error = Absent, stderr = Absent, success = Present True,
    stdout = Present ''lib/x.jsx''\<rparr>"
  let ?fmt = "\<lparr>format = (\<lambda>results :: results_value. Inl ''format failed'' :: string + string)\<rparr>"
  let ?i2 = "\<lparr>lintFiles = (\<lambda>cfs. Inl ''No ESLint configuration found''),
              loadFormatter = (\<lambda>name. Inl ''not reached'')\<rparr>"
  let ?i3 = "\<lparr>lintFiles = (\<lambda>cfs. Inr (ResultArray [])),
              loadFormatter = (\<lambda>name. Inl ''no formatter'')\<rparr>"
  let ?i4 = "\<lparr>lintFiles = (\<lambda>cfs. Inr (ResultArray [])),
              loadFormatter = (\<lambda>name. Inr ?fmt)\<rparr>"
  have 1: "snd (os_run (exec \<lparr>exec = ?ex, platform = ''win32'', new_ESLint = ne\<rparr>) git_cmd)
      = Inr ?response" for ne
    by (simp add: os_run_def os_run_callback_def)
  have 2: "stdout ?response = Present ''lib/x.jsx''"
    by simp
  have 3: "changed_files (platform \<lparr>exec = ?ex, platform = ''win32'', new_ESLint = ne\<rparr>) ''lib/x.jsx''
      = [''lib/x.jsx'']" for ne
    by (simp add: changed_files_def js_split_def new_line_def keep_def match_here_def
        ignored_files_def CR_def)
  have 4: "[''lib/x.jsx''] \<noteq> []"
    by simp
  note inst = engine_failure_rejects_cannot_execute [OF 1 2 3 4]
  have a: "xlint \<lparr>exec = ?ex, platform = ''win32'', new_ESLint = Inl ''Invalid Options''\<rparr>
      = ([Exec git_cmd, LogWith ''Failed to run ESLint, error: '' (ThrownByEngine ''Invalid Options'')],
         Inl (ThrownInt 126))"
    by (rule inst [THEN conjunct1, rule_format]) simp
  have b: "xlint \<lparr>exec = ?ex, platform = ''win32'', new_ESLint = Inr ?i2\<rparr>
      = ([Exec git_cmd, Lint [''lib/x.jsx''],
          LogWith ''Failed to run ESLint, error: '' (ThrownByEngine ''No ESLint configuration found'')],
         Inl (ThrownInt 126))"
    by (rule inst [THEN conjunct2, THEN conjunct1, rule_format, where eslint = ?i2]) simp
  have c: "xlint \<lparr>exec = ?ex, platform = ''win32'', new_ESLint = Inr ?i3\<rparr>
      = ([Exec git_cmd, Lint [''lib/x.jsx''],
          LogWith ''Failed to run ESLint, error: '' (ThrownByEngine ''no formatter'')],
         Inl (ThrownInt 126))"
    by (rule inst [THEN conjunct2, THEN conjunct2, THEN conjunct1, rule_format,
          where eslint = ?i3 and results = "ResultArray []"]) simp
  have d: "xlint \<lparr>exec = ?ex, platform = ''win32'', new_ESLint = Inr ?i4\<rparr>
      = ([Exec git_cmd, Lint [''lib/x.jsx''],
          LogWith ''Failed to run ESLint, error: '' (ThrownByEngine ''format failed'')],
         Inl (ThrownInt 126))"
    by (rule inst [THEN conjunct2, THEN conjunct2, THEN conjunct2, rule_format,
          where eslint = ?i4 and results = "ResultArray []" and fmt = ?fmt]) simp
  from a b c d show ?thesis
    by (intro conjI)
qed

text \<open>
  C9. The terminator the listing is split at depends on the identifier of the host
  only: it is carriage return and line feed exactly for \<^verbatim>\<open>win32\<close>, and the line feed
  alone for every other identifier.
\<close>

theorem new_line_by_platform:
  "(new_line pf = [CHR 0x0D, CHR 0x0A] \<longleftrightarrow> pf = ''win32'') \<and>
   (pf \<noteq> ''win32'' \<longrightarrow> new_line pf = [CHR 0x0A]) \<and>
   changed_files pf out = filter keep (js_split out (new_line pf))"
  by (simp add: new_line_def changed_files_def CR_def LF_def)

theorem new_line_by_platform_witness:
  "new_line ''win32'' = [CHR 0x0D, CHR 0x0A] \<and> ''linux'' \<noteq> ''win32'' \<and>
   new_line ''linux'' = [CHR 0x0A]"
  using new_line_by_platform [of "''win32''"] new_line_by_platform [of "''linux''"]
  by simp

text \<open>
  C10. Every object \<^verbatim>\<open>os_run\<close> resolves with has \<^verbatim>\<open>success\<close> equal to
  \<^verbatim>\<open>true\<close> and a \<^verbatim>\<open>stdout\<close> that is \<^verbatim>\<open>null\<close> or a string that is not empty, so
  one of the three conditions of the entry point holds for it: behind the
  \<^verbatim>\<open>await\<close> the entry point does what its second or its third \<^verbatim>\<open>if\<close> statement
  says, and the throw of \<open>GENERAL_ERROR\<close> at the end of the function, which nothing
  would catch (\<open>handle_response_falls_through\<close>), is not reached: the entry point
  never rejects with \<open>GENERAL_ERROR\<close>.
\<close>

theorem os_run_resolution_is_handled:
  "(snd (os_run ex cmd) = Inr response \<longrightarrow>
      success response = Present True \<and>
      (stdout response = Null \<or> (\<exists>s. stdout response = Present s \<and> s \<noteq> [])) \<and>
      (has_error response \<or> nothing_staged response \<or> has_stdout response) \<and>
      handle_response e response =
        (if nothing_staged response then ([], Inr 0)
         else if changed_files (platform e) (string_of (stdout response)) \<noteq> []
         then lint_files e (changed_files (platform e) (string_of (stdout response)))
         else ([], Inr 0))) \<and>
   snd (xlint e) \<noteq> Inl (ThrownInt GENERAL_ERROR)"
proof (intro conjI impI)
  assume run: "snd (os_run ex cmd) = Inr response"
  note shape = os_run_resolves(3) [OF run]
  have err: "error response = Absent" and suc: "success response = Present True"
    using shape by simp_all
  show "success response = Present True"
    by (rule suc)
  show out: "stdout response = Null \<or> (\<exists>s. stdout response = Present s \<and> s \<noteq> [])"
    using shape by (cases "cb_stdout (ex cmd) = []") simp_all
  then show "has_error response \<or> nothing_staged response \<or> has_stdout response"
    using suc by (auto simp: nothing_staged_def has_stdout_def truthy_bool_def truthy_str_def)
  from out show "handle_response e response =
      (if nothing_staged response then ([], Inr 0)
       else if changed_files (platform e) (string_of (stdout response)) \<noteq> []
       then lint_files e (changed_files (platform e) (string_of (stdout response)))
       else ([], Inr 0))"
  proof
    assume "stdout response = Null"
    with suc show ?thesis
      by (simp add: handle_response_null [OF err suc] nothing_staged_def truthy_bool_def)
  next
    assume "\<exists>s. stdout response = Present s \<and> s \<noteq> []"
    then obtain s where s: "stdout response = Present s" "s \<noteq> []"
      by blast
    then show ?thesis
      by (simp add: handle_response_stdout [OF err suc s] nothing_staged_def string_of_def)
  qed
next
  show "snd (xlint e) \<noteq> Inl (ThrownInt GENERAL_ERROR)"
    by (rule xlint_never_general_error)
qed

theorem os_run_resolution_is_handled_witness:
  "snd (os_run (\<lambda>cmd. \<lparr>cb_error = None, cb_stdout = ''a.js'', cb_stderr = ''hint: x''\<rparr>) git_cmd)
     = Inr \<lparr>error = Absent, stderr = Absent, success = Present True, stdout = Present ''a.js''\<rparr> \<and>
   handle_response
     \<lparr>exec = (\<lambda>cmd. \<lparr>cb_error = None, cb_stdout = ''a.js'', cb_stderr = ''hint: x''\<rparr>),
      platform = ''linux'', new_ESLint = Inl ''Invalid Options''\<rparr>
     \<lparr>error = Absent, stderr = Absent, success = Present True, stdout = Present ''a.js''\<rparr>
     = ([LogWith ''Failed to run ESLint, error: '' (ThrownByEngine ''Invalid Options'')],
        Inl (ThrownInt 126)) \<and>
   snd (xlint \<lparr>exec = (\<lambda>cmd. \<lparr>cb_error = None, cb_stdout = ''a.js'', cb_stderr = ''hint: x''\<rparr>),
      platform = ''linux'', new_ESLint = Inl ''Invalid Options''\<rparr>) \<noteq> Inl (ThrownInt 1)"
proof -
  let ?ex = "\<lambda>cmd :: string. \<lparr>cb_error = None, cb_stdout = ''a.js'', cb_stderr = ''hint: x''\<rparr>"
  let ?e = "\<lparr>exec = ?ex, platform = ''linux'', new_ESLint = Inl ''Invalid Options''\<rparr>"
  let ?response = "\<lparr>error = Absent, stderr = Absent, success = Present True,
    stdout = Present ''a.js''\<rparr>"
  note inst = os_run_resolution_is_handled [of ?ex git_cmd ?response ?e]
  have run: "snd (os_run ?ex git_cmd) = Inr ?response"
    by (simp add: os_run_def os_run_callback_def)
  have cfs: "changed_files (platform ?e) (string_of (stdout ?response)) = [''a.js'']"
    by (simp add: string_of_def changed_files_def js_split_def new_line_def keep_def
        match_here_def ignored_files_def LF_def)
  have "handle_response ?e ?response =
      (if nothing_staged ?response then ([], Inr 0)
       else if changed_files (platform ?e) (string_of (stdout ?response)) \<noteq> []
       then lint_files ?e (changed_files (platform ?e) (string_of (stdout ?response)))
       else ([], Inr 0))"
    using inst [THEN conjunct1, rule_format, OF run] by (elim conjE)
  then have h: "handle_response ?e ?response
      = ([LogWith ''Failed to run ESLint, error: '' (ThrownByEngine ''Invalid Options'')],
         Inl (ThrownInt 126))"
    unfolding cfs
    by (simp add: nothing_staged_def lint_files_def try_lint_def COMMAND_CANNOT_EXECUTE_def)
  have "snd (xlint ?e) \<noteq> Inl (ThrownInt GENERAL_ERROR)"
    by (rule inst [THEN conjunct2])
  then have x: "snd (xlint ?e) \<noteq> Inl (ThrownInt 1)"
    unfolding GENERAL_ERROR_def .
  show ?thesis
    by (rule conjI [OF run conjI [OF h x]])
qed

end
